theory Spec2Isabelle
  imports Main "HOL-Library.Sublist"
begin

section \<open>The icon script \<^verbatim>\<open>update-icon.py\<close>\<close>

text \<open>
  The script resizes one source image into four icon files by running the external
  tool \<^verbatim>\<open>sips\<close> once per entry of a fixed table. Everything it does goes through
  three library calls: \<^verbatim>\<open>os.path.exists\<close>, \<^verbatim>\<open>subprocess.run\<close> and \<^verbatim>\<open>print\<close>.
  The model passes an explicit state through the script and takes the behaviour of the
  filesystem, of the tool and of the standard output stream as parameters, so that
  every theorem holds for every filesystem, every tool and every stream.
\<close>

subsection \<open>Python's \<^verbatim>\<open>str\<close> on integers\<close>

definition digit :: "nat \<Rightarrow> char" where
  "digit d = ''0123456789'' ! d"

function str_nat :: "nat \<Rightarrow> string" where
  "str_nat n = (if n < 10 then [digit n] else str_nat (n div 10) @ [digit (n mod 10)])"
  by pat_completeness auto
termination
  by (relation "measure id") auto

declare str_nat.simps [simp del]

definition str :: "int \<Rightarrow> string" where
  "str i = (if i < 0 then CHR ''-'' # str_nat (nat (- i)) else str_nat (nat i))"

subsection \<open>The environment and the state\<close>

text \<open>
  \<^verbatim>\<open>subprocess.run(cmd, capture_output=True, text=True)\<close> either raises (the program
  cannot be started) or returns a \<^verbatim>\<open>CompletedProcess\<close> with the exit status and the
  captured streams. \<^verbatim>\<open>print\<close> raises when the stream refuses the text, for example
  \<^verbatim>\<open>UnicodeEncodeError\<close> when the encoding of the stream has no code for a character.
\<close>

datatype exception = Exception string

record completed_process =
  returncode :: int
  stdout :: string
  stderr :: string

text \<open>
  The world \<open>'w\<close> is everything outside the process but its standard output stream:
  the filesystem and whatever else the tool reads or writes. \<^verbatim>\<open>os.path.exists\<close> only
  reads it; running a subprocess may change it. The tool runs with its output captured,
  so it does not write to the stream of the script. The stream is given by two
  functions of what the script has written to it so far: whether it takes one more
  line, and whether the flush at the exit of the interpreter succeeds.
\<close>

record 'w os =
  path_exists :: "'w \<Rightarrow> string \<Rightarrow> bool"
  subprocess_run :: "'w \<Rightarrow> string list \<Rightarrow> (exception + completed_process) \<times> 'w"
  stdout_write :: "string list \<Rightarrow> string \<Rightarrow> exception option"
  stdout_flush :: "string list \<Rightarrow> bool"

text \<open>
  The state of a run: the world, the arguments of the \<^verbatim>\<open>print\<close> calls that returned
  (each one a line on standard output) and the argument lists of the
  \<^verbatim>\<open>subprocess.run\<close> calls so far, in order. The last one is a log: the script never
  reads it.
\<close>

record 'w state =
  world :: 'w
  printed :: "string list"
  calls :: "string list list"

definition print :: "'w os \<Rightarrow> 'w state \<Rightarrow> string \<Rightarrow> exception + 'w state" where
  "print os s line =
     (case stdout_write os (printed s) line of
        Some exn \<Rightarrow> Inl exn
      | None \<Rightarrow> Inr (s\<lparr>printed := printed s @ [line]\<rparr>))"

subsection \<open>\<^verbatim>\<open>generate_icons\<close>\<close>

definition sizes :: "(int \<times> int \<times> string) list" where
  "sizes =
    [(512, 512, ''icon.png''),
     (256, 256, ''128x128@2x.png''),
     (128, 128, ''128x128.png''),
     (32, 32, ''32x32.png'')]"

text \<open>Line 29: the argument list of one invocation.\<close>

definition cmd :: "string \<Rightarrow> int \<Rightarrow> int \<Rightarrow> string \<Rightarrow> string list" where
  "cmd source_file width height output =
     [''sips'', ''-z'', str height, str width, source_file, ''--out'', output]"

text \<open>Lines 16, 26, 33 and 36: the lines \<^verbatim>\<open>generate_icons\<close> can print. The check mark
  U+2713 is written as its three UTF-8 bytes.\<close>

definition not_found_line :: "string \<Rightarrow> string" where
  "not_found_line source_file =
     ''Error: Source file '' @ [CHR 0x27] @ source_file @ [CHR 0x27] @ '' not found''"

definition generating_line :: "string \<Rightarrow> string" where
  "generating_line source_file = ''Generating icons from '' @ source_file @ ''...''"

definition error_line :: "string \<Rightarrow> string \<Rightarrow> string" where
  "error_line output err = ''Error generating '' @ output @ '': '' @ err"

definition generated_line :: "int \<Rightarrow> int \<Rightarrow> string \<Rightarrow> string" where
  "generated_line width height output =
     [CHR 0xE2, CHR 0x9C, CHR 0x93] @ '' Generated '' @ output @
     '' ('' @ str width @ ''x'' @ str height @ '')''"

text \<open>
  Lines 28 to 38: the loop over the table and the final \<^verbatim>\<open>return True\<close>. Nothing is
  caught: an exception of \<^verbatim>\<open>subprocess.run\<close> or of \<^verbatim>\<open>print\<close> leaves the function
  (\<open>Inl\<close>).
\<close>

fun for_sizes ::
  "'w os \<Rightarrow> string \<Rightarrow> (int \<times> int \<times> string) list \<Rightarrow> 'w state \<Rightarrow> (exception + bool) \<times> 'w state"
where
  "for_sizes os source_file [] s = (Inr True, s)"
| "for_sizes os source_file ((width, height, output) # rest) s =
     (case subprocess_run os (world s) (cmd source_file width height output) of
        (r, w') \<Rightarrow>
          (let s' = s\<lparr>world := w', calls := calls s @ [cmd source_file width height output]\<rparr> in
           case r of
             Inl exn \<Rightarrow> (Inl exn, s')
           | Inr result \<Rightarrow>
               if returncode result \<noteq> 0
               then (case print os s' (error_line output (stderr result)) of
                       Inl exn \<Rightarrow> (Inl exn, s')
                     | Inr s'' \<Rightarrow> (Inr False, s''))
               else (case print os s' (generated_line width height output) of
                       Inl exn \<Rightarrow> (Inl exn, s')
                     | Inr s'' \<Rightarrow> for_sizes os source_file rest s'')))"

definition generate_icons ::
  "'w os \<Rightarrow> string \<Rightarrow> 'w state \<Rightarrow> (exception + bool) \<times> 'w state"
where
  "generate_icons os source_file s =
     (if \<not> path_exists os (world s) source_file
      then (case print os s (not_found_line source_file) of
              Inl exn \<Rightarrow> (Inl exn, s)
            | Inr s' \<Rightarrow> (Inr False, s'))
      else (case print os s (generating_line source_file) of
              Inl exn \<Rightarrow> (Inl exn, s)
            | Inr s' \<Rightarrow> for_sizes os source_file sizes s'))"

subsection \<open>The command line\<close>

text \<open>
  Lines 40 to 53. \<open>argv\<close> is \<^verbatim>\<open>sys.argv\<close>: the script's name, then the positional
  arguments. The block runs to its end, or leaves through \<^verbatim>\<open>sys.exit(1)\<close>, or through
  an exception nobody catches.
\<close>

datatype outcome = Finished | SystemExit int | Uncaught exception

definition main_block :: "'w os \<Rightarrow> string list \<Rightarrow> 'w state \<Rightarrow> outcome \<times> 'w state" where
  "main_block os argv s =
     (if length argv \<noteq> 2
      then (case print os s ''Usage: python3 update-icon.py <source-icon-file>'' of
              Inl exn \<Rightarrow> (Uncaught exn, s)
            | Inr s1 \<Rightarrow>
                (case print os s1 ''Source icon should be at least 512x512 pixels'' of
                   Inl exn \<Rightarrow> (Uncaught exn, s1)
                 | Inr s2 \<Rightarrow> (SystemExit 1, s2)))
      else
        (let source = argv ! 1 in
         case generate_icons os source s of
           (Inl exn, s') \<Rightarrow> (Uncaught exn, s')
         | (Inr ok, s') \<Rightarrow>
             if ok
             then (case print os s' (CHR 0x0A # ''Icon generation complete!'') of
                     Inl exn \<Rightarrow> (Uncaught exn, s')
                   | Inr s1 \<Rightarrow>
                       (case print os s1 ''The Tauri app will use the new icons on next build.'' of
                          Inl exn \<Rightarrow> (Uncaught exn, s1)
                        | Inr s2 \<Rightarrow> (Finished, s2)))
             else (case print os s' (CHR 0x0A # ''Icon generation failed!'') of
                     Inl exn \<Rightarrow> (Uncaught exn, s')
                   | Inr s1 \<Rightarrow> (SystemExit 1, s1))))"

text \<open>
  The exit status of the process. The interpreter takes 0 from a script that ran to
  its end, the argument of \<^verbatim>\<open>sys.exit\<close>, and 1 from an uncaught exception; then it
  flushes standard output, and when that fails the status is 120 whatever it was.
\<close>

definition main :: "'w os \<Rightarrow> string list \<Rightarrow> 'w state \<Rightarrow> int \<times> 'w state" where
  "main os argv s =
     (case main_block os argv s of
        (out, s') \<Rightarrow>
          (if \<not> stdout_flush os (printed s') then 120
           else (case out of Finished \<Rightarrow> 0 | SystemExit n \<Rightarrow> n | Uncaught exn \<Rightarrow> 1),
           s'))"

subsection \<open>What the tool and the stream answer\<close>

text \<open>
  The answers of the tool when it is run on the given entries one after the other,
  starting in world \<open>w\<close>: the hypotheses about the tool are written with it.
\<close>

fun tool_outcomes ::
  "'w os \<Rightarrow> string \<Rightarrow> (int \<times> int \<times> string) list \<Rightarrow> 'w \<Rightarrow> (exception + completed_process) list"
where
  "tool_outcomes os source_file [] w = []"
| "tool_outcomes os source_file ((width, height, output) # rest) w =
     (case subprocess_run os w (cmd source_file width height output) of
        (r, w') \<Rightarrow> r # tool_outcomes os source_file rest w')"

text \<open>An invocation succeeded when it returned, with exit status 0.\<close>

definition succeeded :: "exception + completed_process \<Rightarrow> bool" where
  "succeeded r = (case r of Inl exn \<Rightarrow> False | Inr result \<Rightarrow> returncode result = 0)"

text \<open>
  The stream, after the lines \<open>written\<close>, takes the given lines one after the other:
  the hypotheses about standard output are written with it.
\<close>

fun stdout_accepts :: "'w os \<Rightarrow> string list \<Rightarrow> string list \<Rightarrow> bool" where
  "stdout_accepts os written [] = True"
| "stdout_accepts os written (line # rest) =
     (stdout_write os written line = None \<and> stdout_accepts os (written @ [line]) rest)"

subsection \<open>Simulated environments\<close>

text \<open>
  A small filesystem to run the script in: the world lists the files that exist, each
  with its contents, the newest first. The simulated tool writes its destination file
  and exits with 0, except for the destinations listed in \<open>bad\<close>, where it writes
  nothing and exits with 1. The stream takes every line and can be flushed.
\<close>

definition sim_os :: "string list \<Rightarrow> ((string \<times> string) list) os" where
  "sim_os bad =
     \<lparr>path_exists = (\<lambda>w p. map_of w p \<noteq> None),
      subprocess_run = (\<lambda>w c.
        if last c \<in> set bad
        then (Inr \<lparr>returncode = 1, stdout = [], stderr = ''Error: cannot write''\<rparr>, w)
        else (Inr \<lparr>returncode = 0, stdout = [], stderr = []\<rparr>,
              (c ! 6, c ! 2 @ ''x'' @ c ! 3 @ '' copy of '' @ c ! 4) # w)),
      stdout_write = (\<lambda>written line. None),
      stdout_flush = (\<lambda>written. True)\<rparr>"

text \<open>The same with a stream whose encoding is ASCII: a line with a byte above 127
  raises.\<close>

definition ascii_os :: "string list \<Rightarrow> ((string \<times> string) list) os" where
  "ascii_os bad =
     (sim_os bad)\<lparr>stdout_write := (\<lambda>written line.
        if list_ex digit7 line then Some (Exception ''UnicodeEncodeError'') else None)\<rparr>"

text \<open>The same with a stream that cannot be flushed at exit (a full disk, a closed
  pipe).\<close>

definition no_flush_os :: "((string \<times> string) list) os" where
  "no_flush_os = (sim_os [])\<lparr>stdout_flush := (\<lambda>written. False)\<rparr>"

text \<open>The same with a tool that reports its failure on its standard output and
  writes nothing to its standard error.\<close>

definition stdout_diag_os :: "((string \<times> string) list) os" where
  "stdout_diag_os =
     (sim_os [])\<lparr>subprocess_run := (\<lambda>w c.
        (Inr \<lparr>returncode = 1, stdout = ''Error: not an image'', stderr = []\<rparr>, w))\<rparr>"

text \<open>The same with a stream that takes \<open>n\<close> lines and then is closed (a pipe
  whose reader has gone, written to line by line).\<close>

definition pipe_os :: "nat \<Rightarrow> ((string \<times> string) list) os" where
  "pipe_os n =
     (sim_os [])\<lparr>stdout_write := (\<lambda>written line.
        if length written < n then None else Some (Exception ''BrokenPipeError''))\<rparr>"

definition start :: "(string \<times> string) list \<Rightarrow> ((string \<times> string) list) state" where
  "start files = \<lparr>world = files, printed = [], calls = []\<rparr>"

section \<open>The loop\<close>

text \<open>
  The stream takes a list of lines when it takes a first part and then the rest.
\<close>

lemma stdout_accepts_append:
  "stdout_accepts os p (xs @ ys) \<longleftrightarrow>
   stdout_accepts os p xs \<and> stdout_accepts os (p @ xs) ys"
  by (induction xs arbitrary: p) auto

text \<open>
  The loop when the tool succeeds on every entry and the stream takes every
  confirmation line, and when the tool first fails on entry \<open>k\<close> (counted from 0).
\<close>

lemma for_sizes_all_ok:
  "list_all succeeded (tool_outcomes os src es (world s)) \<Longrightarrow>
   stdout_accepts os (printed s) (map (\<lambda>(w, h, out). generated_line w h out) es) \<Longrightarrow>
   fst (for_sizes os src es s) = Inr True \<and>
   calls (snd (for_sizes os src es s)) = calls s @ map (\<lambda>(w, h, out). cmd src w h out) es \<and>
   printed (snd (for_sizes os src es s)) =
     printed s @ map (\<lambda>(w, h, out). generated_line w h out) es \<and>
   world (snd (for_sizes os src es s)) =
     fold (\<lambda>c w. snd (subprocess_run os w c)) (map (\<lambda>(w, h, out). cmd src w h out) es) (world s)"
proof (induction es arbitrary: s)
  case Nil
  show ?case by simp
next
  case (Cons e es)
  obtain w h out where e: "e = (w, h, out)" by (cases e)
  obtain r w' where run: "subprocess_run os (world s) (cmd src w h out) = (r, w')"
    by (cases "subprocess_run os (world s) (cmd src w h out)")
  from Cons.prems(1) e run have ok: "succeeded r"
    and rest: "list_all succeeded (tool_outcomes os src es w')"
    by simp_all
  from ok obtain res where r: "r = Inr res" and rc: "returncode res = 0"
    by (cases r) (simp_all add: succeeded_def)
  from Cons.prems(2) e have acc: "stdout_write os (printed s) (generated_line w h out) = None"
    and acc': "stdout_accepts os (printed s @ [generated_line w h out])
        (map (\<lambda>(w, h, out). generated_line w h out) es)"
    by simp_all
  let ?s' = "s\<lparr>world := w', calls := calls s @ [cmd src w h out],
      printed := printed s @ [generated_line w h out]\<rparr>"
  have step: "for_sizes os src ((w, h, out) # es) s = for_sizes os src es ?s'"
    by (simp add: run r rc print_def acc)
  from rest have 1: "list_all succeeded (tool_outcomes os src es (world ?s'))" by simp
  from acc' have 2: "stdout_accepts os (printed ?s')
      (map (\<lambda>(w, h, out). generated_line w h out) es)" by simp
  from Cons.IH [OF 1 2] show ?case
    unfolding e step by (simp add: run)
qed

lemma for_sizes_fail:
  "k < length es \<Longrightarrow>
   \<forall>j<k. succeeded (tool_outcomes os src es (world s) ! j) \<Longrightarrow>
   tool_outcomes os src es (world s) ! k = Inr res \<Longrightarrow>
   returncode res \<noteq> 0 \<Longrightarrow>
   stdout_accepts os (printed s)
     (map (\<lambda>(w, h, out). generated_line w h out) (take k es) @
      [error_line (snd (snd (es ! k))) (stderr res)]) \<Longrightarrow>
   fst (for_sizes os src es s) = Inr False \<and>
   calls (snd (for_sizes os src es s)) =
     calls s @ map (\<lambda>(w, h, out). cmd src w h out) (take (Suc k) es) \<and>
   printed (snd (for_sizes os src es s)) =
     printed s @ map (\<lambda>(w, h, out). generated_line w h out) (take k es) @
     [error_line (snd (snd (es ! k))) (stderr res)]"
proof (induction es arbitrary: s k)
  case Nil
  then show ?case by simp
next
  case (Cons e es)
  obtain w h out where e: "e = (w, h, out)" by (cases e)
  obtain r w' where run: "subprocess_run os (world s) (cmd src w h out) = (r, w')"
    by (cases "subprocess_run os (world s) (cmd src w h out)")
  have outs: "tool_outcomes os src (e # es) (world s) = r # tool_outcomes os src es w'"
    by (simp add: e run)
  show ?case
  proof (cases k)
    case 0
    with Cons.prems(3) outs have r: "r = Inr res" by simp
    from Cons.prems(5) 0 e
    have acc: "stdout_write os (printed s) (error_line out (stderr res)) = None"
      by simp
    from Cons.prems(4) show ?thesis
      unfolding e 0 by (simp add: run r print_def acc)
  next
    case (Suc k')
    from Cons.prems(2) outs Suc have "succeeded r" by auto
    then obtain res0 where r: "r = Inr res0" and rc: "returncode res0 = 0"
      by (cases r) (simp_all add: succeeded_def)
    from Cons.prems(5) Suc e
    have acc: "stdout_write os (printed s) (generated_line w h out) = None"
      and acc': "stdout_accepts os (printed s @ [generated_line w h out])
        (map (\<lambda>(w, h, out). generated_line w h out) (take k' es) @
         [error_line (snd (snd (es ! k'))) (stderr res)])"
      by simp_all
    let ?s' = "s\<lparr>world := w', calls := calls s @ [cmd src w h out],
      printed := printed s @ [generated_line w h out]\<rparr>"
    have step: "for_sizes os src ((w, h, out) # es) s = for_sizes os src es ?s'"
      by (simp add: run r rc print_def acc)
    have 1: "k' < length es" using Cons.prems(1) Suc by simp
    have 2: "\<forall>j<k'. succeeded (tool_outcomes os src es (world ?s') ! j)"
      using Cons.prems(2) outs Suc by auto
    have 3: "tool_outcomes os src es (world ?s') ! k' = Inr res"
      using Cons.prems(3) outs Suc by simp
    from acc' have 5: "stdout_accepts os (printed ?s')
        (map (\<lambda>(w, h, out). generated_line w h out) (take k' es) @
         [error_line (snd (snd (es ! k'))) (stderr res)])" by simp
    from Cons.IH [OF 1 2 3 Cons.prems(4) 5] show ?thesis
      unfolding e step Suc by simp
  qed
qed

text \<open>
  In every run the invocations made are those of a prefix of the table, in the
  table's order; entry \<open>k\<close> is reached when the tool succeeded and the stream took
  the confirmation line on every entry before it. A loop that returns \<^verbatim>\<open>True\<close> has seen
  the tool succeed on every entry.
\<close>

lemma for_sizes_calls:
  "\<exists>n\<le>length es. calls (snd (for_sizes os src es s)) =
      calls s @ map (\<lambda>(w, h, out). cmd src w h out) (take n es)"
proof (induction es arbitrary: s)
  case Nil
  show ?case by simp
next
  case (Cons e es)
  obtain w h out where e: "e = (w, h, out)" by (cases e)
  obtain r w' where run: "subprocess_run os (world s) (cmd src w h out) = (r, w')"
    by (cases "subprocess_run os (world s) (cmd src w h out)")
  let ?s0 = "s\<lparr>world := w', calls := calls s @ [cmd src w h out]\<rparr>"
  let ?s' = "?s0\<lparr>printed := printed s @ [generated_line w h out]\<rparr>"
  show ?case
  proof (cases "\<exists>res. r = Inr res \<and> returncode res = 0 \<and>
      stdout_write os (printed s) (generated_line w h out) = None")
    case True
    then obtain res where r: "r = Inr res" and rc: "returncode res = 0"
      and acc: "stdout_write os (printed s) (generated_line w h out) = None" by blast
    have step: "for_sizes os src ((w, h, out) # es) s = for_sizes os src es ?s'"
      by (simp add: run r rc print_def acc)
    from Cons.IH [of ?s']
    obtain n where "n \<le> length es"
      and "calls (snd (for_sizes os src es ?s')) =
           calls ?s' @ map (\<lambda>(w, h, out). cmd src w h out) (take n es)"
      by blast
    then have "Suc n \<le> length (e # es) \<and> calls (snd (for_sizes os src (e # es) s)) =
      calls s @ map (\<lambda>(w, h, out). cmd src w h out) (take (Suc n) (e # es))"
      unfolding e step by simp
    then show ?thesis by blast
  next
    case False
    then have "calls (snd (for_sizes os src ((w, h, out) # es) s)) = calls s @ [cmd src w h out]"
      by (cases r) (auto simp: run print_def Let_def split: option.splits)
    then have "Suc 0 \<le> length (e # es) \<and> calls (snd (for_sizes os src (e # es) s)) =
      calls s @ map (\<lambda>(w, h, out). cmd src w h out) (take (Suc 0) (e # es))"
      by (simp add: e)
    then show ?thesis by blast
  qed
qed

lemma for_sizes_keeps_calls:
  "prefix (calls s) (calls (snd (for_sizes os src es s)))"
  using for_sizes_calls [of es os src s] by (auto simp: prefix_def)

lemma for_sizes_reaches:
  "k < length es \<Longrightarrow>
   \<forall>j<k. succeeded (tool_outcomes os src es (world s) ! j) \<Longrightarrow>
   stdout_accepts os (printed s) (map (\<lambda>(w, h, out). generated_line w h out) (take k es)) \<Longrightarrow>
   prefix (calls s @ map (\<lambda>(w, h, out). cmd src w h out) (take (Suc k) es))
     (calls (snd (for_sizes os src es s)))"
proof (induction es arbitrary: s k)
  case Nil
  then show ?case by simp
next
  case (Cons e es)
  obtain w h out where e: "e = (w, h, out)" by (cases e)
  obtain r w' where run: "subprocess_run os (world s) (cmd src w h out) = (r, w')"
    by (cases "subprocess_run os (world s) (cmd src w h out)")
  have outs: "tool_outcomes os src (e # es) (world s) = r # tool_outcomes os src es w'"
    by (simp add: e run)
  let ?s' = "s\<lparr>world := w', calls := calls s @ [cmd src w h out],
      printed := printed s @ [generated_line w h out]\<rparr>"
  show ?case
  proof (cases "\<exists>res. r = Inr res \<and> returncode res = 0 \<and>
      stdout_write os (printed s) (generated_line w h out) = None")
    case False
    then have stop: "calls (snd (for_sizes os src ((w, h, out) # es) s)) = calls s @ [cmd src w h out]"
      by (cases r) (auto simp: run print_def Let_def split: option.splits)
    have "k = 0"
    proof (cases k)
      case 0
      then show ?thesis .
    next
      case (Suc k')
      from Cons.prems(2) outs Suc have "succeeded r" by auto
      then obtain res0 where "r = Inr res0" and "returncode res0 = 0"
        by (cases r) (simp_all add: succeeded_def)
      moreover from Cons.prems(3) Suc e
      have "stdout_write os (printed s) (generated_line w h out) = None" by simp
      ultimately show ?thesis using False by blast
    qed
    then show ?thesis unfolding e stop by simp
  next
    case True
    then obtain res where r: "r = Inr res" and rc: "returncode res = 0"
      and acc: "stdout_write os (printed s) (generated_line w h out) = None" by blast
    have step: "for_sizes os src ((w, h, out) # es) s = for_sizes os src es ?s'"
      by (simp add: run r rc print_def acc)
    show ?thesis
    proof (cases k)
      case 0
      from for_sizes_keeps_calls [of ?s' os src es] show ?thesis
        unfolding e step 0 by simp
    next
      case (Suc k')
      have 1: "k' < length es" using Cons.prems(1) Suc by simp
      have 2: "\<forall>j<k'. succeeded (tool_outcomes os src es (world ?s') ! j)"
        using Cons.prems(2) outs Suc by auto
      from Cons.prems(3) Suc e have 3: "stdout_accepts os (printed ?s')
          (map (\<lambda>(w, h, out). generated_line w h out) (take k' es))" by simp
      from Cons.IH [OF 1 2 3] show ?thesis
        unfolding e step Suc by simp
    qed
  qed
qed

lemma for_sizes_True_outcomes:
  "fst (for_sizes os src es s) = Inr True \<Longrightarrow>
   list_all succeeded (tool_outcomes os src es (world s))"
proof (induction es arbitrary: s)
  case Nil
  show ?case by simp
next
  case (Cons e es)
  obtain w h out where e: "e = (w, h, out)" by (cases e)
  obtain r w' where run: "subprocess_run os (world s) (cmd src w h out) = (r, w')"
    by (cases "subprocess_run os (world s) (cmd src w h out)")
  let ?s' = "s\<lparr>world := w', calls := calls s @ [cmd src w h out],
      printed := printed s @ [generated_line w h out]\<rparr>"
  from Cons.prems obtain res where r: "r = Inr res" and rc: "returncode res = 0"
    and rest: "fst (for_sizes os src es ?s') = Inr True"
    unfolding e
    by (cases r) (auto simp: run print_def Let_def split: option.splits if_splits)
  from Cons.IH [OF rest] show ?case
    unfolding e by (simp add: run r rc succeeded_def)
qed

section \<open>From the loop to \<^verbatim>\<open>generate_icons\<close>\<close>

lemma prefix_append_nth:
  "prefix (xs @ ys) zs \<Longrightarrow> i < length ys \<Longrightarrow>
   length xs + i < length zs \<and> zs ! (length xs + i) = ys ! i"
  by (auto simp: prefix_def nth_append)

lemma generate_icons_run:
  "path_exists os (world s) src \<Longrightarrow>
   stdout_write os (printed s) (generating_line src) = None \<Longrightarrow>
   generate_icons os src s =
     for_sizes os src sizes (s\<lparr>printed := printed s @ [generating_line src]\<rparr>)"
  by (simp add: generate_icons_def print_def)

lemma generate_icons_calls:
  "\<exists>n\<le>length sizes.
      calls (snd (generate_icons os src s)) = calls s @
        map (\<lambda>(w, h, out). cmd src w h out) (take n sizes)"
proof (cases "path_exists os (world s) src \<and>
    stdout_write os (printed s) (generating_line src) = None")
  case True
  with for_sizes_calls [of sizes os src "s\<lparr>printed := printed s @ [generating_line src]\<rparr>"]
  show ?thesis by (simp add: generate_icons_run)
next
  case False
  then have "calls (snd (generate_icons os src s)) = calls s @
      map (\<lambda>(w, h, out). cmd src w h out) (take 0 sizes)"
    by (auto simp: generate_icons_def print_def split: option.splits)
  then show ?thesis by blast
qed

lemma generate_icons_reaches:
  assumes "path_exists os (world s) src" and "k < length sizes"
    and "\<forall>j<k. succeeded (tool_outcomes os src sizes (world s) ! j)"
    and "stdout_accepts os (printed s)
      (generating_line src # map (\<lambda>(w, h, out). generated_line w h out) (take k sizes))"
  shows "prefix (calls s @ map (\<lambda>(w, h, out). cmd src w h out) (take (Suc k) sizes))
     (calls (snd (generate_icons os src s)))"
proof -
  let ?s = "s\<lparr>printed := printed s @ [generating_line src]\<rparr>"
  from assms(4) have acc: "stdout_write os (printed s) (generating_line src) = None"
    and 3: "stdout_accepts os (printed ?s)
      (map (\<lambda>(w, h, out). generated_line w h out) (take k sizes))"
    by simp_all
  from assms(3) have 2: "\<forall>j<k. succeeded (tool_outcomes os src sizes (world ?s) ! j)"
    by simp
  from for_sizes_reaches [OF assms(2) 2 3] show ?thesis
    unfolding generate_icons_run [OF assms(1) acc] by simp
qed

lemma generate_icons_True:
  assumes "fst (generate_icons os src s) = Inr True"
  shows "path_exists os (world s) src \<and>
    list_all succeeded (tool_outcomes os src sizes (world s))"
proof -
  from assms have ex: "path_exists os (world s) src"
    by (auto simp: generate_icons_def split: if_splits sum.splits)
  from assms ex have acc: "stdout_write os (printed s) (generating_line src) = None"
    by (auto simp: generate_icons_def print_def split: option.splits)
  from assms for_sizes_True_outcomes [of os src sizes "s\<lparr>printed := printed s @ [generating_line src]\<rparr>"]
  show ?thesis
    unfolding generate_icons_run [OF ex acc] using ex by simp
qed

text \<open>
  The table with Python's \<^verbatim>\<open>str\<close> evaluated: the four argument lists and the four
  confirmation lines.
\<close>

lemma sizes_cmds:
  "map (\<lambda>(w, h, out). cmd src w h out) sizes =
    [[''sips'', ''-z'', ''512'', ''512'', src, ''--out'', ''icon.png''],
     [''sips'', ''-z'', ''256'', ''256'', src, ''--out'', ''128x128@2x.png''],
     [''sips'', ''-z'', ''128'', ''128'', src, ''--out'', ''128x128.png''],
     [''sips'', ''-z'', ''32'', ''32'', src, ''--out'', ''32x32.png'']]"
  by (simp add: sizes_def cmd_def str_def str_nat.simps digit_def)

lemma sizes_lines:
  "map (\<lambda>(w, h, out). generated_line w h out) sizes =
    [[CHR 0xE2, CHR 0x9C, CHR 0x93] @ '' Generated icon.png (512x512)'',
     [CHR 0xE2, CHR 0x9C, CHR 0x93] @ '' Generated 128x128@2x.png (256x256)'',
     [CHR 0xE2, CHR 0x9C, CHR 0x93] @ '' Generated 128x128.png (128x128)'',
     [CHR 0xE2, CHR 0x9C, CHR 0x93] @ '' Generated 32x32.png (32x32)'']"
  by (simp add: sizes_def generated_line_def str_def str_nat.simps digit_def)

lemma generate_icons_fail:
  assumes "path_exists os (world s) src" and "k < length sizes"
    and "\<forall>j<k. succeeded (tool_outcomes os src sizes (world s) ! j)"
    and "tool_outcomes os src sizes (world s) ! k = Inr res"
    and "returncode res \<noteq> 0"
    and "stdout_accepts os (printed s)
      (generating_line src # map (\<lambda>(w, h, out). generated_line w h out) (take k sizes) @
       [error_line (snd (snd (sizes ! k))) (stderr res)])"
  shows "fst (generate_icons os src s) = Inr False \<and>
    calls (snd (generate_icons os src s)) =
      calls s @ map (\<lambda>(w, h, out). cmd src w h out) (take (Suc k) sizes) \<and>
    printed (snd (generate_icons os src s)) =
      printed s @ generating_line src #
      map (\<lambda>(w, h, out). generated_line w h out) (take k sizes) @
      [error_line (snd (snd (sizes ! k))) (stderr res)]"
proof -
  let ?s = "s\<lparr>printed := printed s @ [generating_line src]\<rparr>"
  from assms(6) have acc: "stdout_write os (printed s) (generating_line src) = None"
    and 5: "stdout_accepts os (printed ?s)
      (map (\<lambda>(w, h, out). generated_line w h out) (take k sizes) @
       [error_line (snd (snd (sizes ! k))) (stderr res)])"
    by simp_all
  from assms(3) have 2: "\<forall>j<k. succeeded (tool_outcomes os src sizes (world ?s) ! j)"
    by simp
  from assms(4) have 3: "tool_outcomes os src sizes (world ?s) ! k = Inr res"
    by simp
  from for_sizes_fail [OF assms(2) 2 3 assms(5) 5] show ?thesis
    unfolding generate_icons_run [OF assms(1) acc] by simp
qed

lemma generate_icons_nth_call:
  assumes "path_exists os (world s) src" and "k < length sizes"
    and "sizes ! k = (width, height, output)"
    and "\<forall>j<k. succeeded (tool_outcomes os src sizes (world s) ! j)"
    and "stdout_accepts os (printed s)
      ((''Generating icons from '' @ src @ ''...'') #
       take k
         [[CHR 0xE2, CHR 0x9C, CHR 0x93] @ '' Generated icon.png (512x512)'',
          [CHR 0xE2, CHR 0x9C, CHR 0x93] @ '' Generated 128x128@2x.png (256x256)'',
          [CHR 0xE2, CHR 0x9C, CHR 0x93] @ '' Generated 128x128.png (128x128)'',
          [CHR 0xE2, CHR 0x9C, CHR 0x93] @ '' Generated 32x32.png (32x32)''])"
  shows "length (calls s) + k < length (calls (snd (generate_icons os src s))) \<and>
    calls (snd (generate_icons os src s)) ! (length (calls s) + k) =
      [''sips'', ''-z'', str height, str width, src, ''--out'', output]"
proof -
  let ?f = "\<lambda>(w, h, out). cmd src w h out"
  have 4: "stdout_accepts os (printed s)
      (generating_line src # map (\<lambda>(w, h, out). generated_line w h out) (take k sizes))"
    using assms(5) unfolding take_map [symmetric] sizes_lines
    by (simp add: generating_line_def)
  have len: "k < length (map ?f (take (Suc k) sizes))"
    using assms(2) by simp
  have nth: "map ?f (take (Suc k) sizes) ! k = ?f (sizes ! k)"
    using assms(2) by simp
  from prefix_append_nth [OF generate_icons_reaches [OF assms(1,2,4) 4] len]
  show ?thesis
    unfolding nth assms(3) by (simp add: cmd_def)
qed

section \<open>The simulated environments, evaluated\<close>

lemma sim_os_simps [simp]:
  "path_exists (sim_os bad) w p = (map_of w p \<noteq> None)"
  "subprocess_run (sim_os bad) w c =
     (if last c \<in> set bad
      then (Inr \<lparr>returncode = 1, stdout = [], stderr = ''Error: cannot write''\<rparr>, w)
      else (Inr \<lparr>returncode = 0, stdout = [], stderr = []\<rparr>,
            (c ! 6, c ! 2 @ ''x'' @ c ! 3 @ '' copy of '' @ c ! 4) # w))"
  "stdout_write (sim_os bad) written line = None"
  "stdout_flush (sim_os bad) written = True"
  by (simp_all add: sim_os_def)

lemma ascii_os_simps [simp]:
  "path_exists (ascii_os bad) = path_exists (sim_os bad)"
  "subprocess_run (ascii_os bad) = subprocess_run (sim_os bad)"
  "stdout_write (ascii_os bad) written line =
     (if list_ex digit7 line then Some (Exception ''UnicodeEncodeError'') else None)"
  "stdout_flush (ascii_os bad) written = True"
  by (simp_all add: ascii_os_def)

lemma no_flush_os_simps [simp]:
  "path_exists no_flush_os = path_exists (sim_os [])"
  "subprocess_run no_flush_os = subprocess_run (sim_os [])"
  "stdout_write no_flush_os written line = None"
  "stdout_flush no_flush_os written = False"
  by (simp_all add: no_flush_os_def)

lemma stdout_diag_os_simps [simp]:
  "path_exists stdout_diag_os = path_exists (sim_os [])"
  "subprocess_run stdout_diag_os w c =
     (Inr \<lparr>returncode = 1, stdout = ''Error: not an image'', stderr = []\<rparr>, w)"
  "stdout_write stdout_diag_os written line = None"
  "stdout_flush stdout_diag_os written = True"
  by (simp_all add: stdout_diag_os_def)

lemma pipe_os_simps [simp]:
  "path_exists (pipe_os n) = path_exists (sim_os [])"
  "subprocess_run (pipe_os n) = subprocess_run (sim_os [])"
  "stdout_write (pipe_os n) written line =
     (if length written < n then None else Some (Exception ''BrokenPipeError''))"
  "stdout_flush (pipe_os n) written = True"
  by (simp_all add: pipe_os_def)

lemma start_simps [simp]:
  "world (start files) = files" "printed (start files) = []" "calls (start files) = []"
  by (simp_all add: start_def)

lemma sim_accepts [simp]: "stdout_accepts (sim_os bad) written lines"
  by (induction lines arbitrary: written) simp_all

lemma outcomes_cong:
  "subprocess_run os = subprocess_run os' \<Longrightarrow>
   tool_outcomes os src es w = tool_outcomes os' src es w"
  by (induction es arbitrary: w) (auto split: prod.splits)

lemma sim_outcomes:
  "tool_outcomes (sim_os bad) src sizes w =
     map (\<lambda>out. if out \<in> set bad
           then Inr \<lparr>returncode = 1, stdout = [], stderr = ''Error: cannot write''\<rparr>
           else Inr \<lparr>returncode = 0, stdout = [], stderr = []\<rparr>)
       [''icon.png'', ''128x128@2x.png'', ''128x128.png'', ''32x32.png'']"
  by (simp add: sizes_def cmd_def)

section \<open>The exit status\<close>

lemma main_state: "snd (main os argv s) = snd (main_block os argv s)"
  by (simp add: main_def split: prod.splits)

lemma main_status:
  "fst (main os argv s) =
     (if \<not> stdout_flush os (printed (snd (main_block os argv s))) then 120
      else case fst (main_block os argv s) of
             Finished \<Rightarrow> 0 | SystemExit n \<Rightarrow> n | Uncaught exn \<Rightarrow> 1)"
  by (simp add: main_def split: prod.splits)

lemma main_block_outcome:
  "fst (main_block os argv s) = Finished \<and> length argv = 2 \<and>
     fst (generate_icons os (argv ! 1) s) = Inr True \<and>
     stdout_accepts os (printed (snd (generate_icons os (argv ! 1) s)))
       [CHR 0x0A # ''Icon generation complete!'',
        ''The Tauri app will use the new icons on next build.''] \<or>
   (fst (main_block os argv s) = SystemExit 1 \<or> (\<exists>exn. fst (main_block os argv s) = Uncaught exn)) \<and>
   \<not> (length argv = 2 \<and>
     fst (generate_icons os (argv ! 1) s) = Inr True \<and>
     stdout_accepts os (printed (snd (generate_icons os (argv ! 1) s)))
       [CHR 0x0A # ''Icon generation complete!'',
        ''The Tauri app will use the new icons on next build.''])"
  by (auto simp: main_block_def print_def Let_def
      split: prod.splits sum.splits option.splits)

lemma main_status_cases:
  assumes "stdout_flush os (printed (snd (main os argv s)))"
  shows "fst (main os argv s) =
     (if length argv = 2 \<and> fst (generate_icons os (argv ! 1) s) = Inr True \<and>
         stdout_accepts os (printed (snd (generate_icons os (argv ! 1) s)))
           [CHR 0x0A # ''Icon generation complete!'',
            ''The Tauri app will use the new icons on next build.'']
      then 0 else 1)"
  using assms main_block_outcome [of os argv s]
  unfolding main_state main_status by auto

section \<open>The size table\<close>

text \<open>
  C9: the size table is not empty, its output file names are pairwise distinct, and
  every width and height is positive. The table is a constant: no operation of the
  script takes it as an argument or returns it, so nothing can change it.
\<close>

theorem sizes_invariant:
  "sizes \<noteq> [] \<and> distinct (map (\<lambda>e. snd (snd e)) sizes) \<and>
   list_all (\<lambda>e. 0 < fst e \<and> 0 < fst (snd e)) sizes"
  by (simp add: sizes_def)

section \<open>\<^verbatim>\<open>generate_icons\<close>\<close>

text \<open>
  C1 as stated fails on a stream that cannot encode the check mark: the source exists,
  the tool exits with status 0 on every entry, and \<^verbatim>\<open>print\<close> on line 36 raises after
  the first invocation, so \<^verbatim>\<open>generate_icons\<close> does not return.
\<close>

theorem generate_icons_raises_on_ascii_stdout:
  "path_exists (ascii_os []) (world (start [(''logo.png'', ''image'')])) ''logo.png'' \<and>
   list_all succeeded
     (tool_outcomes (ascii_os []) ''logo.png'' sizes (world (start [(''logo.png'', ''image'')]))) \<and>
   fst (generate_icons (ascii_os []) ''logo.png'' (start [(''logo.png'', ''image'')])) =
     Inl (Exception ''UnicodeEncodeError'') \<and>
   calls (snd (generate_icons (ascii_os []) ''logo.png'' (start [(''logo.png'', ''image'')]))) =
      [[''sips'', ''-z'', ''512'', ''512'', ''logo.png'', ''--out'', ''icon.png'']]"
proof -
  let ?s = "start [(''logo.png'', ''image'')]"
  have "tool_outcomes (ascii_os []) ''logo.png'' sizes (world ?s) =
      tool_outcomes (sim_os []) ''logo.png'' sizes (world ?s)"
    by (rule outcomes_cong) simp
  then have 2: "list_all succeeded (tool_outcomes (ascii_os []) ''logo.png'' sizes (world ?s))"
    by (simp add: sim_outcomes succeeded_def)
  have 3: "generate_icons (ascii_os []) ''logo.png'' ?s =
      (Inl (Exception ''UnicodeEncodeError''),
       \<lparr>world = [(''icon.png'', ''512x512 copy of logo.png''), (''logo.png'', ''image'')],
        printed = [''Generating icons from logo.png...''],
        calls = [[''sips'', ''-z'', ''512'', ''512'', ''logo.png'', ''--out'', ''icon.png'']]\<rparr>)"
    by (simp add: generate_icons_def generating_line_def generated_line_def print_def
        sizes_def cmd_def str_def str_nat.simps digit_def start_def)
  from 2 3 show ?thesis by simp
qed

text \<open>
  C1, amended: when the source path exists, the tool exits with status 0 on every
  entry and standard output takes the five progress lines, \<^verbatim>\<open>generate_icons\<close> returns
  \<^verbatim>\<open>True\<close> and runs the tool exactly four times, once per entry of the table, in the
  table's order, each time with the entry's output file.
\<close>

theorem generate_icons_all_succeed:
  assumes "path_exists os (world s) source_file"
    and "list_all succeeded (tool_outcomes os source_file sizes (world s))"
    and "stdout_accepts os (printed s)
      [''Generating icons from '' @ source_file @ ''...'',
       [CHR 0xE2, CHR 0x9C, CHR 0x93] @ '' Generated icon.png (512x512)'',
       [CHR 0xE2, CHR 0x9C, CHR 0x93] @ '' Generated 128x128@2x.png (256x256)'',
       [CHR 0xE2, CHR 0x9C, CHR 0x93] @ '' Generated 128x128.png (128x128)'',
       [CHR 0xE2, CHR 0x9C, CHR 0x93] @ '' Generated 32x32.png (32x32)'']"
  shows "fst (generate_icons os source_file s) = Inr True \<and>
    calls (snd (generate_icons os source_file s)) = calls s @
      [[''sips'', ''-z'', ''512'', ''512'', source_file, ''--out'', ''icon.png''],
       [''sips'', ''-z'', ''256'', ''256'', source_file, ''--out'', ''128x128@2x.png''],
       [''sips'', ''-z'', ''128'', ''128'', source_file, ''--out'', ''128x128.png''],
       [''sips'', ''-z'', ''32'', ''32'', source_file, ''--out'', ''32x32.png'']]"
proof -
  let ?s = "s\<lparr>printed := printed s @ [generating_line source_file]\<rparr>"
  from assms(3) have acc: "stdout_write os (printed s) (generating_line source_file) = None"
    and 2: "stdout_accepts os (printed ?s) (map (\<lambda>(w, h, out). generated_line w h out) sizes)"
    unfolding sizes_lines by (simp_all add: generating_line_def)
  from assms(2) have 1: "list_all succeeded (tool_outcomes os source_file sizes (world ?s))"
    by simp
  from for_sizes_all_ok [OF 1 2] show ?thesis
    unfolding generate_icons_run [OF assms(1) acc] by (simp add: sizes_cmds)
qed

theorem generate_icons_all_succeed_witness:
  "path_exists (sim_os []) (world (start [(''logo.png'', ''image'')])) ''logo.png'' \<and>
   list_all succeeded
     (tool_outcomes (sim_os []) ''logo.png'' sizes (world (start [(''logo.png'', ''image'')]))) \<and>
   fst (generate_icons (sim_os []) ''logo.png'' (start [(''logo.png'', ''image'')])) = Inr True \<and>
   calls (snd (generate_icons (sim_os []) ''logo.png'' (start [(''logo.png'', ''image'')]))) =
      [[''sips'', ''-z'', ''512'', ''512'', ''logo.png'', ''--out'', ''icon.png''],
       [''sips'', ''-z'', ''256'', ''256'', ''logo.png'', ''--out'', ''128x128@2x.png''],
       [''sips'', ''-z'', ''128'', ''128'', ''logo.png'', ''--out'', ''128x128.png''],
       [''sips'', ''-z'', ''32'', ''32'', ''logo.png'', ''--out'', ''32x32.png'']]"
proof -
  let ?s = "start [(''logo.png'', ''image'')]"
  have 1: "path_exists (sim_os []) (world ?s) ''logo.png''"
    by simp
  have 2: "list_all succeeded (tool_outcomes (sim_os []) ''logo.png'' sizes (world ?s))"
    by (simp add: sim_outcomes succeeded_def)
  from generate_icons_all_succeed [OF 1 2 sim_accepts] 1 2 show ?thesis
    by simp
qed

text \<open>
  C2 as stated fails on the same stream: the tool would fail on the second entry, but
  \<^verbatim>\<open>print\<close> raises after the first invocation; no \<^verbatim>\<open>False\<close> is returned and the second
  entry is never run.
\<close>

theorem generate_icons_failure_not_reported:
  "path_exists (ascii_os [''128x128@2x.png'']) (world (start [(''logo.png'', ''image'')]))
     ''logo.png'' \<and>
   tool_outcomes (ascii_os [''128x128@2x.png'']) ''logo.png'' sizes
       (world (start [(''logo.png'', ''image'')])) =
     [Inr \<lparr>returncode = 0, stdout = [], stderr = []\<rparr>,
      Inr \<lparr>returncode = 1, stdout = [], stderr = ''Error: cannot write''\<rparr>,
      Inr \<lparr>returncode = 0, stdout = [], stderr = []\<rparr>,
      Inr \<lparr>returncode = 0, stdout = [], stderr = []\<rparr>] \<and>
   generate_icons (ascii_os [''128x128@2x.png'']) ''logo.png'' (start [(''logo.png'', ''image'')]) =
     (Inl (Exception ''UnicodeEncodeError''),
      \<lparr>world = [(''icon.png'', ''512x512 copy of logo.png''), (''logo.png'', ''image'')],
       printed = [''Generating icons from logo.png...''],
       calls = [[''sips'', ''-z'', ''512'', ''512'', ''logo.png'', ''--out'', ''icon.png'']]\<rparr>)"
proof -
  let ?s = "start [(''logo.png'', ''image'')]"
  have "tool_outcomes (ascii_os [''128x128@2x.png'']) ''logo.png'' sizes (world ?s) =
      tool_outcomes (sim_os [''128x128@2x.png'']) ''logo.png'' sizes (world ?s)"
    by (rule outcomes_cong) simp
  then have 2: "tool_outcomes (ascii_os [''128x128@2x.png'']) ''logo.png'' sizes (world ?s) =
     [Inr \<lparr>returncode = 0, stdout = [], stderr = []\<rparr>,
      Inr \<lparr>returncode = 1, stdout = [], stderr = ''Error: cannot write''\<rparr>,
      Inr \<lparr>returncode = 0, stdout = [], stderr = []\<rparr>,
      Inr \<lparr>returncode = 0, stdout = [], stderr = []\<rparr>]"
    by (simp add: sim_outcomes)
  have 3: "generate_icons (ascii_os [''128x128@2x.png'']) ''logo.png'' ?s =
     (Inl (Exception ''UnicodeEncodeError''),
      \<lparr>world = [(''icon.png'', ''512x512 copy of logo.png''), (''logo.png'', ''image'')],
       printed = [''Generating icons from logo.png...''],
       calls = [[''sips'', ''-z'', ''512'', ''512'', ''logo.png'', ''--out'', ''icon.png'']]\<rparr>)"
    by (simp add: generate_icons_def generating_line_def generated_line_def print_def
        sizes_def cmd_def str_def str_nat.simps digit_def start_def)
  from 2 3 show ?thesis by simp
qed

text \<open>
  C2, amended: when the source path exists, the tool exits with status 0 on the
  entries before the \<open>k\<close>-th (counted from 1) and with a non-zero status on the
  \<open>k\<close>-th, and standard output takes the lines printed up to the error line, then
  \<^verbatim>\<open>generate_icons\<close> returns \<^verbatim>\<open>False\<close> after exactly \<open>k\<close> invocations: the first
  \<open>k\<close> of the table, and none of the later ones. The run after the theorem is the
  failure on the second entry.
\<close>

theorem generate_icons_stops_at_failure:
  assumes "path_exists os (world s) source_file"
    and "1 \<le> k" and "k \<le> length sizes"
    and "\<forall>j<k - 1. succeeded (tool_outcomes os source_file sizes (world s) ! j)"
    and "tool_outcomes os source_file sizes (world s) ! (k - 1) = Inr result"
    and "returncode result \<noteq> 0"
    and "stdout_accepts os (printed s)
      ((''Generating icons from '' @ source_file @ ''...'') #
       take (k - 1)
         [[CHR 0xE2, CHR 0x9C, CHR 0x93] @ '' Generated icon.png (512x512)'',
          [CHR 0xE2, CHR 0x9C, CHR 0x93] @ '' Generated 128x128@2x.png (256x256)'',
          [CHR 0xE2, CHR 0x9C, CHR 0x93] @ '' Generated 128x128.png (128x128)'',
          [CHR 0xE2, CHR 0x9C, CHR 0x93] @ '' Generated 32x32.png (32x32)''] @
       [''Error generating '' @ snd (snd (sizes ! (k - 1))) @ '': '' @ stderr result])"
  shows "fst (generate_icons os source_file s) = Inr False \<and>
    length (calls (snd (generate_icons os source_file s))) = length (calls s) + k \<and>
    calls (snd (generate_icons os source_file s)) = calls s @ take k
      [[''sips'', ''-z'', ''512'', ''512'', source_file, ''--out'', ''icon.png''],
       [''sips'', ''-z'', ''256'', ''256'', source_file, ''--out'', ''128x128@2x.png''],
       [''sips'', ''-z'', ''128'', ''128'', source_file, ''--out'', ''128x128.png''],
       [''sips'', ''-z'', ''32'', ''32'', source_file, ''--out'', ''32x32.png'']]"
proof -
  from assms(2) have k: "Suc (k - 1) = k" by simp
  have 1: "k - 1 < length sizes" using assms(2,3) by simp
  have 6: "stdout_accepts os (printed s)
      (generating_line source_file #
       map (\<lambda>(w, h, out). generated_line w h out) (take (k - 1) sizes) @
       [error_line (snd (snd (sizes ! (k - 1)))) (stderr result)])"
    using assms(7) unfolding take_map [symmetric] sizes_lines
    by (simp add: generating_line_def error_line_def)
  have len: "length (take k (map (\<lambda>(w, h, out). cmd source_file w h out) sizes)) = k"
    using assms(3) by simp
  from generate_icons_fail [OF assms(1) 1 assms(4,5,6) 6] len show ?thesis
    unfolding k by (simp add: take_map [symmetric] sizes_cmds del: length_take)
qed

theorem generate_icons_stops_at_failure_witness:
  "path_exists (sim_os [''128x128@2x.png'']) (world (start [(''logo.png'', ''image'')])) ''logo.png'' \<and>
   succeeded (tool_outcomes (sim_os [''128x128@2x.png'']) ''logo.png'' sizes
     (world (start [(''logo.png'', ''image'')])) ! 0) \<and>
   returncode (projr (tool_outcomes (sim_os [''128x128@2x.png'']) ''logo.png'' sizes
     (world (start [(''logo.png'', ''image'')])) ! 1)) = 1 \<and>
   fst (generate_icons (sim_os [''128x128@2x.png'']) ''logo.png''
     (start [(''logo.png'', ''image'')])) = Inr False \<and>
   length (calls (snd (generate_icons (sim_os [''128x128@2x.png'']) ''logo.png''
     (start [(''logo.png'', ''image'')])))) = 2 \<and>
   calls (snd (generate_icons (sim_os [''128x128@2x.png'']) ''logo.png''
     (start [(''logo.png'', ''image'')]))) =
      [[''sips'', ''-z'', ''512'', ''512'', ''logo.png'', ''--out'', ''icon.png''],
       [''sips'', ''-z'', ''256'', ''256'', ''logo.png'', ''--out'', ''128x128@2x.png'']]"
proof -
  let ?os = "sim_os [''128x128@2x.png'']"
  let ?s = "start [(''logo.png'', ''image'')]"
  let ?outs = "tool_outcomes ?os ''logo.png'' sizes (world ?s)"
  let ?res = "\<lparr>returncode = 1, stdout = [], stderr = ''Error: cannot write''\<rparr>"
  have 1: "path_exists ?os (world ?s) ''logo.png''"
    by simp
  have 2: "(1::nat) \<le> 2" by simp
  have 3: "2 \<le> length sizes" by (simp add: sizes_def)
  have 4: "\<forall>j<2 - 1. succeeded (?outs ! j)"
    by (simp add: sim_outcomes succeeded_def)
  have 5: "?outs ! (2 - 1) = Inr ?res"
    by (simp add: sim_outcomes)
  have 6: "returncode ?res \<noteq> 0" by simp
  from generate_icons_stops_at_failure [OF 1 2 3 4 5 6 sim_accepts] 1 4 5 show ?thesis
    by simp
qed

text \<open>
  C3 as stated fails for a missing path that the stream cannot encode (here a name
  with the two UTF-8 bytes of U+00E9 on an ASCII stream): \<^verbatim>\<open>print\<close> on line 16 raises,
  nothing is printed and \<^verbatim>\<open>False\<close> is not returned.
\<close>

theorem generate_icons_missing_source_raises:
  "\<not> path_exists (ascii_os []) (world (start [(''logo.png'', ''image'')]))
       ([CHR 0xC3, CHR 0xA9] @ ''.png'') \<and>
   generate_icons (ascii_os []) ([CHR 0xC3, CHR 0xA9] @ ''.png'') (start [(''logo.png'', ''image'')]) =
     (Inl (Exception ''UnicodeEncodeError''), start [(''logo.png'', ''image'')])"
  by (simp add: generate_icons_def print_def not_found_line_def)

text \<open>
  C3, amended: when the source path does not exist, the tool is not run and the
  world is left as it was; \<^verbatim>\<open>generate_icons\<close> prints one message that names the path
  and returns \<^verbatim>\<open>False\<close> when standard output takes the message, and is left by the
  exception of \<^verbatim>\<open>print\<close> otherwise.
\<close>

theorem generate_icons_missing_source:
  assumes "\<not> path_exists os (world s) source_file"
  shows "generate_icons os source_file s =
    (case stdout_write os (printed s)
            (''Error: Source file '' @ [CHR 0x27] @ source_file @ [CHR 0x27] @ '' not found'') of
       None \<Rightarrow>
         (Inr False,
          s\<lparr>printed := printed s @
            [''Error: Source file '' @ [CHR 0x27] @ source_file @ [CHR 0x27] @ '' not found'']\<rparr>)
     | Some exn \<Rightarrow> (Inl exn, s))"
  using assms
  by (simp add: generate_icons_def print_def not_found_line_def split: option.splits)

theorem generate_icons_missing_source_witness:
  "\<not> path_exists (sim_os []) (world (start [(''logo.png'', ''image'')])) ''nothing.png'' \<and>
   generate_icons (sim_os []) ''nothing.png'' (start [(''logo.png'', ''image'')]) =
     (Inr False,
      \<lparr>world = [(''logo.png'', ''image'')],
       printed = [''Error: Source file '' @ [CHR 0x27] @ ''nothing.png'' @ [CHR 0x27] @ '' not found''],
       calls = []\<rparr>)"
proof -
  have 1: "\<not> path_exists (sim_os []) (world (start [(''logo.png'', ''image'')])) ''nothing.png''"
    by simp
  from generate_icons_missing_source [OF 1] 1 show ?thesis
    by (simp add: start_def)
qed

text \<open>
  C6: the invocations of a run are those of a prefix of the table, in order, and the
  invocation for the entry \<open>(width, height, output)\<close> carries, in this order, the
  height, the width, the source path and, after \<^verbatim>\<open>--out\<close>, the output file. No
  output name has a directory part, and \<^verbatim>\<open>subprocess.run\<close> is given no working
  directory, so the tool resolves the name in the current one. Entry \<open>k\<close> (counted
  from 0) is invoked, as the \<open>k\<close>-th invocation of the run, when the source exists,
  the tool succeeded on the entries before it and standard output took the lines
  printed before it.
\<close>

theorem generate_icons_arguments:
  "(\<exists>n\<le>length sizes.
      calls (snd (generate_icons os source_file s)) = calls s @
        map (\<lambda>(width, height, output).
               [''sips'', ''-z'', str height, str width, source_file, ''--out'', output])
          (take n sizes)) \<and>
   list_all (\<lambda>(width, height, output). CHR ''/'' \<notin> set output) sizes \<and>
   (path_exists os (world s) source_file \<and> k < length sizes \<and>
    sizes ! k = (width, height, output) \<and>
    (\<forall>j<k. succeeded (tool_outcomes os source_file sizes (world s) ! j)) \<and>
    stdout_accepts os (printed s)
      ((''Generating icons from '' @ source_file @ ''...'') #
       take k
         [[CHR 0xE2, CHR 0x9C, CHR 0x93] @ '' Generated icon.png (512x512)'',
          [CHR 0xE2, CHR 0x9C, CHR 0x93] @ '' Generated 128x128@2x.png (256x256)'',
          [CHR 0xE2, CHR 0x9C, CHR 0x93] @ '' Generated 128x128.png (128x128)'',
          [CHR 0xE2, CHR 0x9C, CHR 0x93] @ '' Generated 32x32.png (32x32)'']) \<longrightarrow>
    length (calls s) + k < length (calls (snd (generate_icons os source_file s))) \<and>
    calls (snd (generate_icons os source_file s)) ! (length (calls s) + k) =
      [''sips'', ''-z'', str height, str width, source_file, ''--out'', output])"
proof -
  have cmd: "(\<lambda>(w, h, out). cmd source_file w h out) =
      (\<lambda>(width, height, output).
         [''sips'', ''-z'', str height, str width, source_file, ''--out'', output])"
    by (simp add: cmd_def)
  have "list_all (\<lambda>(width, height, output). CHR ''/'' \<notin> set output) sizes"
    by (simp add: sizes_def)
  with generate_icons_calls [of os source_file s] generate_icons_nth_call [of os s source_file k]
  show ?thesis
    unfolding cmd by blast
qed

theorem generate_icons_arguments_witness:
  "path_exists (sim_os []) (world (start [(''logo.png'', ''image'')])) ''logo.png'' \<and>
   sizes ! 3 = (32, 32, ''32x32.png'') \<and>
   list_all succeeded (take 3
     (tool_outcomes (sim_os []) ''logo.png'' sizes (world (start [(''logo.png'', ''image'')])))) \<and>
   calls (snd (generate_icons (sim_os []) ''logo.png'' (start [(''logo.png'', ''image'')]))) ! 3 =
     [''sips'', ''-z'', ''32'', ''32'', ''logo.png'', ''--out'', ''32x32.png'']"
proof -
  let ?os = "sim_os []"
  let ?s = "start [(''logo.png'', ''image'')]"
  let ?outs = "tool_outcomes ?os ''logo.png'' sizes (world ?s)"
  have 1: "path_exists ?os (world ?s) ''logo.png''"
    by simp
  have 2: "3 < length sizes" by (simp add: sizes_def)
  have 3: "sizes ! 3 = (32, 32, ''32x32.png'')" by (simp add: sizes_def)
  have 4: "\<forall>j<3. succeeded (?outs ! j)"
    by (simp add: sim_outcomes succeeded_def less_Suc_eq numeral_3_eq_3)
  have 5: "str 32 = ''32''"
    by (simp add: str_def str_nat.simps digit_def)
  have 6: "list_all succeeded (take 3 ?outs)"
    by (simp add: sim_outcomes succeeded_def)
  from generate_icons_arguments [of ?os "''logo.png''" ?s 3 32 32 "''32x32.png''"]
    1 2 3 4 5 6 sim_accepts [of "[]"]
  show ?thesis
    by simp
qed

text \<open>
  C7 as stated fails for a tool that reports its failure on its standard output:
  that text is captured and never printed. The error line carries the captured
  standard error only, here the empty string. It fails too on a stream that cannot
  encode the check mark: the failure on the fourth entry is never reported, since
  \<^verbatim>\<open>print\<close> on line 36 raises after the first invocation.
\<close>

theorem generate_icons_drops_captured_stdout:
  "path_exists stdout_diag_os (world (start [(''logo.txt'', ''text'')])) ''logo.txt'' \<and>
   subprocess_run stdout_diag_os (world (start [(''logo.txt'', ''text'')]))
       [''sips'', ''-z'', ''512'', ''512'', ''logo.txt'', ''--out'', ''icon.png''] =
     (Inr \<lparr>returncode = 1, stdout = ''Error: not an image'', stderr = []\<rparr>,
      [(''logo.txt'', ''text'')]) \<and>
   generate_icons stdout_diag_os ''logo.txt'' (start [(''logo.txt'', ''text'')]) =
     (Inr False,
      \<lparr>world = [(''logo.txt'', ''text'')],
       printed = [''Generating icons from logo.txt...'', ''Error generating icon.png: ''],
       calls = [[''sips'', ''-z'', ''512'', ''512'', ''logo.txt'', ''--out'', ''icon.png'']]\<rparr>) \<and>
   path_exists (ascii_os [''32x32.png'']) (world (start [(''logo.png'', ''image'')])) ''logo.png'' \<and>
   generate_icons (ascii_os [''32x32.png'']) ''logo.png'' (start [(''logo.png'', ''image'')]) =
     (Inl (Exception ''UnicodeEncodeError''),
      \<lparr>world = [(''icon.png'', ''512x512 copy of logo.png''), (''logo.png'', ''image'')],
       printed = [''Generating icons from logo.png...''],
       calls = [[''sips'', ''-z'', ''512'', ''512'', ''logo.png'', ''--out'', ''icon.png'']]\<rparr>)"
  by (simp add: generate_icons_def generating_line_def generated_line_def error_line_def print_def
      sizes_def cmd_def str_def str_nat.simps digit_def start_def)

text \<open>
  C7, amended: when the tool first fails on entry \<open>k\<close> (counted from 0) and standard
  output takes the lines, \<^verbatim>\<open>generate_icons\<close> prints, after the progress lines of the
  entries before, one last line made of the name of the output file of that entry and
  the text captured from the standard error stream of that invocation; the captured
  standard output is not printed.
\<close>

theorem generate_icons_reports_stderr:
  assumes "path_exists os (world s) source_file"
    and "k < length sizes"
    and "\<forall>j<k. succeeded (tool_outcomes os source_file sizes (world s) ! j)"
    and "tool_outcomes os source_file sizes (world s) ! k = Inr result"
    and "returncode result \<noteq> 0"
    and "stdout_accepts os (printed s)
      ((''Generating icons from '' @ source_file @ ''...'') #
       take k
         [[CHR 0xE2, CHR 0x9C, CHR 0x93] @ '' Generated icon.png (512x512)'',
          [CHR 0xE2, CHR 0x9C, CHR 0x93] @ '' Generated 128x128@2x.png (256x256)'',
          [CHR 0xE2, CHR 0x9C, CHR 0x93] @ '' Generated 128x128.png (128x128)'',
          [CHR 0xE2, CHR 0x9C, CHR 0x93] @ '' Generated 32x32.png (32x32)''] @
       [''Error generating '' @ snd (snd (sizes ! k)) @ '': '' @ stderr result])"
  shows "printed (snd (generate_icons os source_file s)) =
    printed s @
    (''Generating icons from '' @ source_file @ ''...'') #
    take k
      [[CHR 0xE2, CHR 0x9C, CHR 0x93] @ '' Generated icon.png (512x512)'',
       [CHR 0xE2, CHR 0x9C, CHR 0x93] @ '' Generated 128x128@2x.png (256x256)'',
       [CHR 0xE2, CHR 0x9C, CHR 0x93] @ '' Generated 128x128.png (128x128)'',
       [CHR 0xE2, CHR 0x9C, CHR 0x93] @ '' Generated 32x32.png (32x32)''] @
    [''Error generating '' @ snd (snd (sizes ! k)) @ '': '' @ stderr result]"
proof -
  have 6: "stdout_accepts os (printed s)
      (generating_line source_file #
       map (\<lambda>(w, h, out). generated_line w h out) (take k sizes) @
       [error_line (snd (snd (sizes ! k))) (stderr result)])"
    using assms(6) unfolding take_map [symmetric] sizes_lines
    by (simp add: generating_line_def error_line_def)
  from generate_icons_fail [OF assms(1-5) 6] show ?thesis
    unfolding take_map [symmetric] sizes_lines
    by (simp add: generating_line_def error_line_def)
qed

theorem generate_icons_reports_stderr_witness:
  "path_exists (sim_os [''32x32.png'']) (world (start [(''logo.png'', ''image'')])) ''logo.png'' \<and>
   tool_outcomes (sim_os [''32x32.png'']) ''logo.png'' sizes
       (world (start [(''logo.png'', ''image'')])) ! 3 =
     Inr \<lparr>returncode = 1, stdout = [], stderr = ''Error: cannot write''\<rparr> \<and>
   printed (snd (generate_icons (sim_os [''32x32.png'']) ''logo.png''
       (start [(''logo.png'', ''image'')]))) =
     [''Generating icons from logo.png...'',
      [CHR 0xE2, CHR 0x9C, CHR 0x93] @ '' Generated icon.png (512x512)'',
      [CHR 0xE2, CHR 0x9C, CHR 0x93] @ '' Generated 128x128@2x.png (256x256)'',
      [CHR 0xE2, CHR 0x9C, CHR 0x93] @ '' Generated 128x128.png (128x128)'',
      ''Error generating 32x32.png: Error: cannot write'']"
proof -
  let ?os = "sim_os [''32x32.png'']"
  let ?s = "start [(''logo.png'', ''image'')]"
  let ?outs = "tool_outcomes ?os ''logo.png'' sizes (world ?s)"
  let ?res = "\<lparr>returncode = 1, stdout = [], stderr = ''Error: cannot write''\<rparr>"
  have 1: "path_exists ?os (world ?s) ''logo.png''"
    by simp
  have 2: "3 < length sizes" by (simp add: sizes_def)
  have 3: "\<forall>j<3. succeeded (?outs ! j)"
    by (simp add: sim_outcomes succeeded_def less_Suc_eq numeral_3_eq_3)
  have 4: "?outs ! 3 = Inr ?res"
    by (simp add: sim_outcomes)
  have 5: "returncode ?res \<noteq> 0" by simp
  have 6: "snd (snd (sizes ! 3)) = ''32x32.png''" by (simp add: sizes_def)
  from generate_icons_reports_stderr [OF 1 2 3 4 5 sim_accepts] 1 4 6 show ?thesis
    by simp
qed

text \<open>
  C8 as stated fails on a stream that cannot encode the check mark: each of the two
  runs is left by the exception of \<^verbatim>\<open>print\<close> after one invocation.
\<close>

theorem generate_icons_twice_raises:
  "path_exists (ascii_os []) (world (start [(''logo.png'', ''image'')])) ''logo.png'' \<and>
   fst (generate_icons (ascii_os []) ''logo.png'' (start [(''logo.png'', ''image'')])) =
     Inl (Exception ''UnicodeEncodeError'') \<and>
   path_exists (ascii_os [])
     (world (snd (generate_icons (ascii_os []) ''logo.png'' (start [(''logo.png'', ''image'')]))))
     ''logo.png'' \<and>
   fst (generate_icons (ascii_os []) ''logo.png''
       (snd (generate_icons (ascii_os []) ''logo.png'' (start [(''logo.png'', ''image'')])))) =
     Inl (Exception ''UnicodeEncodeError'') \<and>
   map length (map calls
     [snd (generate_icons (ascii_os []) ''logo.png'' (start [(''logo.png'', ''image'')])),
      snd (generate_icons (ascii_os []) ''logo.png''
       (snd (generate_icons (ascii_os []) ''logo.png'' (start [(''logo.png'', ''image'')]))))]) =
     [1, 2]"
  by (simp add: generate_icons_def generating_line_def generated_line_def print_def
      sizes_def cmd_def str_def str_nat.simps digit_def start_def)

text \<open>
  C8, amended: two runs of \<^verbatim>\<open>generate_icons\<close> one after the other, on a source path
  that exists before each, with a tool that succeeds on every entry in each and a
  standard output that takes the progress lines in each, both return \<^verbatim>\<open>True\<close>, make
  the same four invocations (same output files, same dimensions) and print the same
  five lines. A run changes the world only through its four invocations of the tool.
\<close>

theorem generate_icons_twice:
  assumes "path_exists os (world s) source_file"
    and "list_all succeeded (tool_outcomes os source_file sizes (world s))"
    and "stdout_accepts os (printed s) progress"
    and "s1 = snd (generate_icons os source_file s)"
    and "path_exists os (world s1) source_file"
    and "list_all succeeded (tool_outcomes os source_file sizes (world s1))"
    and "stdout_accepts os (printed s1) progress"
    and "s2 = snd (generate_icons os source_file s1)"
    and "invocations =
      [[''sips'', ''-z'', ''512'', ''512'', source_file, ''--out'', ''icon.png''],
       [''sips'', ''-z'', ''256'', ''256'', source_file, ''--out'', ''128x128@2x.png''],
       [''sips'', ''-z'', ''128'', ''128'', source_file, ''--out'', ''128x128.png''],
       [''sips'', ''-z'', ''32'', ''32'', source_file, ''--out'', ''32x32.png'']]"
    and "progress =
      [''Generating icons from '' @ source_file @ ''...'',
       [CHR 0xE2, CHR 0x9C, CHR 0x93] @ '' Generated icon.png (512x512)'',
       [CHR 0xE2, CHR 0x9C, CHR 0x93] @ '' Generated 128x128@2x.png (256x256)'',
       [CHR 0xE2, CHR 0x9C, CHR 0x93] @ '' Generated 128x128.png (128x128)'',
       [CHR 0xE2, CHR 0x9C, CHR 0x93] @ '' Generated 32x32.png (32x32)'']"
  shows "fst (generate_icons os source_file s) = Inr True \<and>
    fst (generate_icons os source_file s1) = Inr True \<and>
    calls s1 = calls s @ invocations \<and> calls s2 = calls s1 @ invocations \<and>
    printed s1 = printed s @ progress \<and> printed s2 = printed s1 @ progress \<and>
    world s1 = fold (\<lambda>c w. snd (subprocess_run os w c)) invocations (world s) \<and>
    world s2 = fold (\<lambda>c w. snd (subprocess_run os w c)) invocations (world s1)"
proof -
  have once: "fst (generate_icons os source_file t) = Inr True \<and>
      calls (snd (generate_icons os source_file t)) = calls t @ invocations \<and>
      printed (snd (generate_icons os source_file t)) = printed t @ progress \<and>
      world (snd (generate_icons os source_file t)) =
        fold (\<lambda>c w. snd (subprocess_run os w c)) invocations (world t)"
    if ex: "path_exists os (world t) source_file"
      and ok: "list_all succeeded (tool_outcomes os source_file sizes (world t))"
      and acc: "stdout_accepts os (printed t) progress" for t
  proof -
    let ?t = "t\<lparr>printed := printed t @ [generating_line source_file]\<rparr>"
    from acc have a1: "stdout_write os (printed t) (generating_line source_file) = None"
      and a2: "stdout_accepts os (printed ?t)
        (map (\<lambda>(w, h, out). generated_line w h out) sizes)"
      unfolding assms(10) sizes_lines by (simp_all add: generating_line_def)
    from ok have ok': "list_all succeeded (tool_outcomes os source_file sizes (world ?t))"
      by simp
    from for_sizes_all_ok [OF ok' a2] show ?thesis
      unfolding generate_icons_run [OF ex a1] assms(9,10)
      by (simp add: sizes_cmds sizes_lines generating_line_def)
  qed
  from once [OF assms(1,2,3)] once [OF assms(5,6,7)] show ?thesis
    unfolding assms(4,8) by simp
qed

theorem generate_icons_twice_witness:
  "path_exists (sim_os []) (world (start [(''logo.png'', ''image'')])) ''logo.png'' \<and>
   path_exists (sim_os [])
     (world (snd (generate_icons (sim_os []) ''logo.png'' (start [(''logo.png'', ''image'')]))))
     ''logo.png'' \<and>
   calls (snd (generate_icons (sim_os []) ''logo.png''
       (snd (generate_icons (sim_os []) ''logo.png'' (start [(''logo.png'', ''image'')]))))) =
      [[''sips'', ''-z'', ''512'', ''512'', ''logo.png'', ''--out'', ''icon.png''],
       [''sips'', ''-z'', ''256'', ''256'', ''logo.png'', ''--out'', ''128x128@2x.png''],
       [''sips'', ''-z'', ''128'', ''128'', ''logo.png'', ''--out'', ''128x128.png''],
       [''sips'', ''-z'', ''32'', ''32'', ''logo.png'', ''--out'', ''32x32.png''],
       [''sips'', ''-z'', ''512'', ''512'', ''logo.png'', ''--out'', ''icon.png''],
       [''sips'', ''-z'', ''256'', ''256'', ''logo.png'', ''--out'', ''128x128@2x.png''],
       [''sips'', ''-z'', ''128'', ''128'', ''logo.png'', ''--out'', ''128x128.png''],
       [''sips'', ''-z'', ''32'', ''32'', ''logo.png'', ''--out'', ''32x32.png'']]"
proof -
  let ?os = "sim_os []"
  let ?s = "start [(''logo.png'', ''image'')]"
  let ?s1 = "snd (generate_icons ?os ''logo.png'' ?s)"
  have 1: "path_exists ?os (world ?s) ''logo.png''"
    by simp
  have 2: "list_all succeeded (tool_outcomes ?os ''logo.png'' sizes (world ?s))"
    by (simp add: sim_outcomes succeeded_def)
  have w1: "map_of (world ?s1) ''logo.png'' = Some ''image''"
    by (simp add: generate_icons_def generating_line_def generated_line_def print_def
        sizes_def cmd_def str_def str_nat.simps digit_def start_def)
  have 4: "path_exists ?os (world ?s1) ''logo.png''"
    using w1 by simp
  have 5: "list_all succeeded (tool_outcomes ?os ''logo.png'' sizes (world ?s1))"
    by (simp add: sim_outcomes succeeded_def)
  from generate_icons_twice [OF 1 2 sim_accepts refl 4 5 sim_accepts refl refl refl] 1 4
  show ?thesis
    by simp
qed




section \<open>The command line\<close>

text \<open>
  C4 as stated fails when standard output cannot be flushed at exit: with one
  argument and \<^verbatim>\<open>generate_icons\<close> returning \<^verbatim>\<open>True\<close> the block runs to its end, and
  the exit status is 120. It fails too when the stream is closed after the five
  progress lines: \<^verbatim>\<open>generate_icons\<close> returned \<^verbatim>\<open>True\<close>, \<^verbatim>\<open>print\<close> on line 49 raises,
  and the exit status is 1.
\<close>

theorem main_exit_status_120:
  "fst (generate_icons no_flush_os ''logo.png'' (start [(''logo.png'', ''image'')])) = Inr True \<and>
   fst (main_block no_flush_os [''update-icon.py'', ''logo.png'']
     (start [(''logo.png'', ''image'')])) = Finished \<and>
   fst (main no_flush_os [''update-icon.py'', ''logo.png''] (start [(''logo.png'', ''image'')])) = 120 \<and>
   fst (generate_icons (pipe_os 5) ''logo.png'' (start [(''logo.png'', ''image'')])) = Inr True \<and>
   fst (main_block (pipe_os 5) [''update-icon.py'', ''logo.png'']
     (start [(''logo.png'', ''image'')])) = Uncaught (Exception ''BrokenPipeError'') \<and>
   fst (main (pipe_os 5) [''update-icon.py'', ''logo.png''] (start [(''logo.png'', ''image'')])) = 1"
  by (simp add: main_def main_block_def generate_icons_def generating_line_def Let_def
      generated_line_def print_def sizes_def cmd_def str_def str_nat.simps digit_def start_def)

text \<open>
  C4, amended: the exit status is 120 when the flush of standard output at exit
  fails. When it succeeds, the status is 0 if \<^verbatim>\<open>sys.argv\<close> has exactly two elements
  (one positional argument), \<^verbatim>\<open>generate_icons\<close> returned \<^verbatim>\<open>True\<close> and standard output
  took the two closing lines, and 1 in every other case. In particular it is 1 on a
  usage error, on a missing source file and when an invocation of the tool does not
  succeed, and 0 when the source exists, the tool succeeds on every entry and standard
  output takes all seven lines.
\<close>

theorem main_exit_status:
  "(\<not> stdout_flush os (printed (snd (main os argv s))) \<longrightarrow> fst (main os argv s) = 120) \<and>
   (stdout_flush os (printed (snd (main os argv s))) \<longrightarrow>
      fst (main os argv s) =
        (if length argv = 2 \<and> fst (generate_icons os (argv ! 1) s) = Inr True \<and>
            stdout_accepts os (printed (snd (generate_icons os (argv ! 1) s)))
              [CHR 0x0A # ''Icon generation complete!'',
               ''The Tauri app will use the new icons on next build.'']
         then 0 else 1) \<and>
      (length argv \<noteq> 2 \<longrightarrow> fst (main os argv s) = 1) \<and>
      (length argv = 2 \<and> \<not> path_exists os (world s) (argv ! 1) \<longrightarrow>
         fst (main os argv s) = 1) \<and>
      (length argv = 2 \<and>
       \<not> list_all succeeded (tool_outcomes os (argv ! 1) sizes (world s)) \<longrightarrow>
         fst (main os argv s) = 1) \<and>
      (length argv = 2 \<and> path_exists os (world s) (argv ! 1) \<and>
       list_all succeeded (tool_outcomes os (argv ! 1) sizes (world s)) \<and>
       stdout_accepts os (printed s)
         [''Generating icons from '' @ argv ! 1 @ ''...'',
          [CHR 0xE2, CHR 0x9C, CHR 0x93] @ '' Generated icon.png (512x512)'',
          [CHR 0xE2, CHR 0x9C, CHR 0x93] @ '' Generated 128x128@2x.png (256x256)'',
          [CHR 0xE2, CHR 0x9C, CHR 0x93] @ '' Generated 128x128.png (128x128)'',
          [CHR 0xE2, CHR 0x9C, CHR 0x93] @ '' Generated 32x32.png (32x32)'',
          CHR 0x0A # ''Icon generation complete!'',
          ''The Tauri app will use the new icons on next build.''] \<longrightarrow>
         fst (main os argv s) = 0))"
proof (intro conjI impI)
  assume "\<not> stdout_flush os (printed (snd (main os argv s)))"
  then show "fst (main os argv s) = 120"
    unfolding main_state main_status by simp
next
  assume fl: "stdout_flush os (printed (snd (main os argv s)))"
  note st = main_status_cases [OF fl]
  show "fst (main os argv s) =
        (if length argv = 2 \<and> fst (generate_icons os (argv ! 1) s) = Inr True \<and>
            stdout_accepts os (printed (snd (generate_icons os (argv ! 1) s)))
              [CHR 0x0A # ''Icon generation complete!'',
               ''The Tauri app will use the new icons on next build.'']
         then 0 else 1)"
    by (rule st)
  show "fst (main os argv s) = 1" if "length argv \<noteq> 2"
    using that unfolding st by simp
  show "fst (main os argv s) = 1"
    if "length argv = 2 \<and> \<not> path_exists os (world s) (argv ! 1)"
    using that generate_icons_True [of os "argv ! 1" s] unfolding st by auto
  show "fst (main os argv s) = 1"
    if "length argv = 2 \<and>
       \<not> list_all succeeded (tool_outcomes os (argv ! 1) sizes (world s))"
    using that generate_icons_True [of os "argv ! 1" s] unfolding st by auto
  show "fst (main os argv s) = 0"
    if h: "length argv = 2 \<and> path_exists os (world s) (argv ! 1) \<and>
       list_all succeeded (tool_outcomes os (argv ! 1) sizes (world s)) \<and>
       stdout_accepts os (printed s)
         [''Generating icons from '' @ argv ! 1 @ ''...'',
          [CHR 0xE2, CHR 0x9C, CHR 0x93] @ '' Generated icon.png (512x512)'',
          [CHR 0xE2, CHR 0x9C, CHR 0x93] @ '' Generated 128x128@2x.png (256x256)'',
          [CHR 0xE2, CHR 0x9C, CHR 0x93] @ '' Generated 128x128.png (128x128)'',
          [CHR 0xE2, CHR 0x9C, CHR 0x93] @ '' Generated 32x32.png (32x32)'',
          CHR 0x0A # ''Icon generation complete!'',
          ''The Tauri app will use the new icons on next build.'']"
  proof -
    let ?src = "argv ! 1"
    let ?s = "s\<lparr>printed := printed s @ [generating_line ?src]\<rparr>"
    let ?lines = "map (\<lambda>(w, h, out). generated_line w h out) sizes"
    let ?closing = "[CHR 0x0A # ''Icon generation complete!'',
          ''The Tauri app will use the new icons on next build.'']"
    from h have all: "stdout_accepts os (printed s) ((generating_line ?src # ?lines) @ ?closing)"
      unfolding sizes_lines by (simp add: generating_line_def)
    then have a1: "stdout_write os (printed s) (generating_line ?src) = None"
      and a2: "stdout_accepts os (printed ?s) ?lines"
      and a3: "stdout_accepts os (printed s @ generating_line ?src # ?lines) ?closing"
      unfolding stdout_accepts_append by simp_all
    from h have ex: "path_exists os (world s) ?src"
      and ok: "list_all succeeded (tool_outcomes os ?src sizes (world ?s))"
      by simp_all
    from for_sizes_all_ok [OF ok a2]
    have "fst (generate_icons os ?src s) = Inr True"
      and "printed (snd (generate_icons os ?src s)) = printed s @ generating_line ?src # ?lines"
      unfolding generate_icons_run [OF ex a1] by simp_all
    with a3 h show ?thesis unfolding st by simp
  qed
qed

theorem main_exit_status_witness:
  "fst (main (sim_os []) [''update-icon.py'', ''logo.png''] (start [(''logo.png'', ''image'')])) = 0 \<and>
   fst (main (sim_os []) [''update-icon.py'', ''nothing.png''] (start [(''logo.png'', ''image'')])) = 1 \<and>
   fst (main (sim_os [''128x128.png'']) [''update-icon.py'', ''logo.png'']
     (start [(''logo.png'', ''image'')])) = 1 \<and>
   fst (main (sim_os []) [''update-icon.py''] (start [(''logo.png'', ''image'')])) = 1 \<and>
   fst (main no_flush_os [''update-icon.py'', ''nothing.png''] (start [(''logo.png'', ''image'')])) = 120"
proof -
  let ?s = "start [(''logo.png'', ''image'')]"
  have ok: "list_all succeeded (tool_outcomes (sim_os []) ''logo.png'' sizes (world ?s))"
    by (simp add: sim_outcomes succeeded_def)
  have bad: "\<not> list_all succeeded
      (tool_outcomes (sim_os [''128x128.png'']) ''logo.png'' sizes (world ?s))"
    by (simp add: sim_outcomes succeeded_def)
  from main_exit_status [of "sim_os []" "[''update-icon.py'', ''logo.png'']" ?s] ok
  have 1: "fst (main (sim_os []) [''update-icon.py'', ''logo.png''] ?s) = 0"
    by simp
  from main_exit_status [of "sim_os []" "[''update-icon.py'', ''nothing.png'']" ?s]
  have 2: "fst (main (sim_os []) [''update-icon.py'', ''nothing.png''] ?s) = 1"
    by simp
  from main_exit_status [of "sim_os [''128x128.png'']" "[''update-icon.py'', ''logo.png'']" ?s] bad
  have 3: "fst (main (sim_os [''128x128.png'']) [''update-icon.py'', ''logo.png''] ?s) = 1"
    by simp
  from main_exit_status [of "sim_os []" "[''update-icon.py'']" ?s]
  have 4: "fst (main (sim_os []) [''update-icon.py''] ?s) = 1"
    by simp
  from main_exit_status [of no_flush_os "[''update-icon.py'', ''nothing.png'']" ?s]
  have 5: "fst (main no_flush_os [''update-icon.py'', ''nothing.png''] ?s) = 120"
    by simp
  from 1 2 3 4 5 show ?thesis by simp
qed

text \<open>
  C5 as stated fails when standard output cannot be flushed at exit: with no
  argument the usage text is printed and the exit status is 120. On a stream that is
  closed from the start \<^verbatim>\<open>print\<close> on line 42 raises: the status is 1 and no usage
  text is printed.
\<close>

theorem main_usage_120:
  "length (tl [''update-icon.py'']) \<noteq> 1 \<and>
   main no_flush_os [''update-icon.py''] (start [(''logo.png'', ''image'')]) =
    (120, \<lparr>world = [(''logo.png'', ''image'')],
           printed = [''Usage: python3 update-icon.py <source-icon-file>'',
                      ''Source icon should be at least 512x512 pixels''],
           calls = []\<rparr>) \<and>
   main (pipe_os 0) [''update-icon.py''] (start [(''logo.png'', ''image'')]) =
    (1, \<lparr>world = [(''logo.png'', ''image'')], printed = [], calls = []\<rparr>)"
  by (simp add: main_def main_block_def print_def start_def)

text \<open>
  C5, amended: when the number of positional arguments (\<^verbatim>\<open>sys.argv\<close> without the
  script's name) is not 1, the tool is not run and the world is left as it was;
  nothing but usage lines is printed, both of them when standard output takes them;
  and the exit status is 1, or 120 when the flush of standard output at exit fails.
\<close>

theorem main_usage:
  assumes "length (tl argv) \<noteq> 1"
  shows "calls (snd (main os argv s)) = calls s \<and> world (snd (main os argv s)) = world s \<and>
    (\<exists>n\<le>2. printed (snd (main os argv s)) = printed s @ take n
       [''Usage: python3 update-icon.py <source-icon-file>'',
        ''Source icon should be at least 512x512 pixels'']) \<and>
    (stdout_accepts os (printed s)
       [''Usage: python3 update-icon.py <source-icon-file>'',
        ''Source icon should be at least 512x512 pixels''] \<longrightarrow>
     printed (snd (main os argv s)) = printed s @
       [''Usage: python3 update-icon.py <source-icon-file>'',
        ''Source icon should be at least 512x512 pixels'']) \<and>
    fst (main os argv s) =
      (if stdout_flush os (printed (snd (main os argv s))) then 1 else 120)"
proof -
  let ?u1 = "''Usage: python3 update-icon.py <source-icon-file>''"
  let ?u2 = "''Source icon should be at least 512x512 pixels''"
  from assms have len: "length argv \<noteq> 2" by (cases argv) auto
  consider (none) "stdout_write os (printed s) ?u1 \<noteq> None"
    | (one) "stdout_write os (printed s) ?u1 = None"
        "stdout_write os (printed s @ [?u1]) ?u2 \<noteq> None"
    | (both) "stdout_write os (printed s) ?u1 = None"
        "stdout_write os (printed s @ [?u1]) ?u2 = None"
    by blast
  then show ?thesis
  proof cases
    case none
    then have "\<exists>exn. main_block os argv s = (Uncaught exn, s)"
      using len by (auto simp: main_block_def print_def split: option.splits)
    then obtain exn where b: "main_block os argv s = (Uncaught exn, s)" by blast
    have "printed s = printed s @ take 0 [?u1, ?u2]" by simp
    then have "\<exists>n\<le>2. printed s = printed s @ take n [?u1, ?u2]" by blast
    with none show ?thesis
      by (simp add: main_def b)
  next
    case one
    then have "\<exists>exn. main_block os argv s = (Uncaught exn, s\<lparr>printed := printed s @ [?u1]\<rparr>)"
      using len by (auto simp: main_block_def print_def split: option.splits)
    then obtain exn where b: "main_block os argv s =
        (Uncaught exn, s\<lparr>printed := printed s @ [?u1]\<rparr>)" by blast
    have "printed s @ [?u1] = printed s @ take 1 [?u1, ?u2]" by simp
    then have "\<exists>n\<le>2. printed s @ [?u1] = printed s @ take n [?u1, ?u2]"
      by (intro exI [of _ 1]) simp
    with one show ?thesis
      by (simp add: main_def b)
  next
    case both
    then have b: "main_block os argv s = (SystemExit 1, s\<lparr>printed := printed s @ [?u1, ?u2]\<rparr>)"
      using len by (simp add: main_block_def print_def)
    have "printed s @ [?u1, ?u2] = printed s @ take 2 [?u1, ?u2]" by simp
    then have "\<exists>n\<le>2. printed s @ [?u1, ?u2] = printed s @ take n [?u1, ?u2]"
      by (intro exI [of _ 2]) simp
    with both show ?thesis
      by (simp add: main_def b)
  qed
qed

theorem main_usage_witness:
  "length (tl [''update-icon.py'', ''a.png'', ''b.png'']) \<noteq> 1 \<and>
   main (sim_os []) [''update-icon.py'', ''a.png'', ''b.png'']
       (start [(''a.png'', ''image''), (''b.png'', ''image'')]) =
    (1, \<lparr>world = [(''a.png'', ''image''), (''b.png'', ''image'')],
         printed = [''Usage: python3 update-icon.py <source-icon-file>'',
                    ''Source icon should be at least 512x512 pixels''],
         calls = []\<rparr>)"
proof -
  let ?argv = "[''update-icon.py'', ''a.png'', ''b.png'']"
  let ?s = "start [(''a.png'', ''image''), (''b.png'', ''image'')]"
  have 1: "length (tl ?argv) \<noteq> 1" by simp
  obtain st t where m: "main (sim_os []) ?argv ?s = (st, t)"
    by (cases "main (sim_os []) ?argv ?s")
  obtain w p c where t: "t = \<lparr>world = w, printed = p, calls = c\<rparr>"
    by (cases t) simp
  from main_usage [where os = "sim_os []" and s = ?s, OF 1] 1 show ?thesis
    unfolding m t by simp
qed

end
